theory Spec2Isabelle
  imports Complex_Main
begin

section \<open>Values, exceptions and the outside world\<close>

text \<open>
  Python strings are modelled as \<open>string\<close>: a list of code points, each below 256.
  The exceptions are the subclasses of \<open>Exception\<close> that the pipeline can meet.
  \<open>RequestException\<close> stands for every \<open>requests.exceptions.RequestException\<close>
  (connection errors, timeouts, \<open>HTTPError\<close>, body decoding errors); it is the only
  class that \<open>WebSearcher.search\<close> catches. \<open>OtherError\<close> stands for any other
  \<open>Exception\<close> a library raises (for example an API error of the model client).
\<close>

datatype request_exception =
    ConnectionError string
  | Timeout string
  | HTTPError nat
  | JSONDecodeError string
  | OtherRequestException string

datatype py_error =
    KeyError string
  | IndexError
  | ValueError
  | TypeError
  | AttributeError
  | ZeroDivisionError
  | RequestException request_exception
  | OtherError string

text \<open>A decoded JSON value, as \<open>response.json()\<close> returns it. An object is the list of
  the items of the resulting dict (its keys are distinct); a number keeps its literal text,
  the code never looks at it.\<close>

datatype json =
    JNull
  | JBool bool
  | JNum string
  | JStr string
  | JArr "json list"
  | JObj "(string \<times> json) list"

text \<open>The HTTP request of \<open>requests.get(url, params=params)\<close>. The key is
  \<open>os.getenv("SERPAPI_API_KEY")\<close>, which is \<open>None\<close> when the variable is unset.\<close>

record get_request =
  url :: string
  q :: string
  api_key :: "string option"
  num :: nat

text \<open>The response object: its status code and what \<open>response.json()\<close> does on it.\<close>

record http_response =
  status_code :: nat
  json_body :: "py_error + json"

record chat_message =
  role :: string
  content :: string

record chat_request =
  model :: string
  messages :: "chat_message list"
  max_tokens :: nat
  temperature :: real

text \<open>The completion object: for each choice, \<open>choice.message.content\<close>, which the
  client types as an optional string.\<close>

record chat_response =
  choices :: "string option list"

text \<open>What the pipeline does to the outside, in order: the progress signal
  \<open>st.progress((idx + 1) / num_entities)\<close> (numerator and denominator), the two outbound
  calls, \<open>st.sidebar.error(prefix + str(e))\<close> and \<open>time.sleep(0.5)\<close>.\<close>

datatype event =
    Progress nat nat
  | HttpGet get_request
  | ChatCompletion chat_request
  | SidebarError string py_error
  | Sleep

text \<open>The two services answer from a state of their own, \<open>'w\<close>, so that two calls with
  the same arguments may be answered differently. \<open>format_ext\<close> is what \<open>str.format\<close>
  does from a replacement field on that is outside the fragment modelled below.\<close>

record 'w env =
  requests_get :: "'w \<Rightarrow> get_request \<Rightarrow> (py_error + http_response) \<times> 'w"
  chat_completions_create :: "'w \<Rightarrow> chat_request \<Rightarrow> (py_error + chat_response) \<times> 'w"
  format_ext :: "string \<Rightarrow> string \<Rightarrow> py_error + string"
  serpapi_key :: "string option"

record 'w state =
  world :: 'w
  events :: "event list"

definition emit :: "event \<Rightarrow> 'w state \<Rightarrow> 'w state" where
  "emit ev st = st\<lparr>events := events st @ [ev]\<rparr>"

section \<open>\<open>prompt.format(entity=entity)\<close>\<close>

text \<open>
  The template is read left to right. \<open>{{\<close> and \<open>}}\<close> are the escaped braces, a
  single \<open>}\<close> or an unclosed \<open>{\<close> is a \<open>ValueError\<close>. A replacement field
  \<open>{name}\<close> is looked up among the keyword arguments, here \<open>entity\<close> only: another
  name is a \<open>KeyError\<close>, the empty name is positional argument 0 of none, an
  \<open>IndexError\<close>. A field with an attribute or index (\<open>.\<close>, \<open>[\<close>), a conversion
  (\<open>!\<close>), a format specification (\<open>:\<close>), a nested brace, or a name that starts with
  a digit is left to \<open>format_ext\<close>, which receives the template from that field on.
\<close>

datatype fmt_mode = Literal | Field string

definition is_digit :: "char \<Rightarrow> bool" where
  "is_digit c = (c \<in> set ''0123456789'')"

definition field_special :: "char \<Rightarrow> bool" where
  "field_special c = (c \<in> set ''!:.[{'')"

definition field_value :: "string \<Rightarrow> string \<Rightarrow> py_error + string" where
  "field_value name entity =
     (if name = [] then Inl IndexError
      else if name = ''entity'' then Inr entity
      else Inl (KeyError name))"

definition prepend :: "string \<Rightarrow> py_error + string \<Rightarrow> py_error + string" where
  "prepend s r = (case r of Inl e \<Rightarrow> Inl e | Inr t \<Rightarrow> Inr (s @ t))"

fun format_from :: "(string \<Rightarrow> string \<Rightarrow> py_error + string) \<Rightarrow> string \<Rightarrow> fmt_mode \<Rightarrow> string
    \<Rightarrow> py_error + string" where
  "format_from ext entity Literal [] = Inr []"
| "format_from ext entity Literal [c] =
     (if c = CHR ''{'' \<or> c = CHR ''}'' then Inl ValueError else Inr [c])"
| "format_from ext entity Literal (c # d # cs) =
     (if c = CHR ''{'' then
        (if d = CHR ''{'' then prepend ''{'' (format_from ext entity Literal cs)
         else format_from ext entity (Field []) (d # cs))
      else if c = CHR ''}'' then
        (if d = CHR ''}'' then prepend ''}'' (format_from ext entity Literal cs)
         else Inl ValueError)
      else prepend [c] (format_from ext entity Literal (d # cs)))"
| "format_from ext entity (Field acc) [] = Inl ValueError"
| "format_from ext entity (Field acc) (c # cs) =
     (if c = CHR ''}'' then
        (if acc \<noteq> [] \<and> is_digit (last acc) then ext (rev acc @ c # cs) entity
         else case field_value (rev acc) entity of
                Inl e \<Rightarrow> Inl e
              | Inr v \<Rightarrow> prepend v (format_from ext entity Literal cs))
      else if field_special c then ext (rev acc @ c # cs) entity
      else format_from ext entity (Field (c # acc)) cs)"

definition py_format :: "(string \<Rightarrow> string \<Rightarrow> py_error + string) \<Rightarrow> string \<Rightarrow> string
    \<Rightarrow> py_error + string" where
  "py_format ext prompt entity = format_from ext entity Literal prompt"

section \<open>\<open>WebSearcher.search\<close>\<close>

text \<open>\<open>response.raise_for_status()\<close> raises \<open>HTTPError\<close> for the client and server
  error codes, 400 to 599, and for no other status.\<close>

definition raise_for_status :: "http_response \<Rightarrow> py_error + unit" where
  "raise_for_status r =
     (if 400 \<le> status_code r \<and> status_code r < 600
      then Inl (RequestException (HTTPError (status_code r))) else Inr ())"

text \<open>\<open>d.get(key, default)\<close>: only a dict has the method.\<close>

definition dict_get :: "json \<Rightarrow> string \<Rightarrow> json \<Rightarrow> py_error + json" where
  "dict_get d key dflt =
     (case d of
        JObj items \<Rightarrow> Inr (case map_of items key of None \<Rightarrow> dflt | Some v \<Rightarrow> v)
      | _ \<Rightarrow> Inl AttributeError)"

text \<open>\<open>for result in results\<close>: a list gives its elements, a dict its keys, a string its
  characters; \<open>None\<close>, a bool and a number are not iterable.\<close>

definition py_iter :: "json \<Rightarrow> py_error + json list" where
  "py_iter v =
     (case v of
        JArr xs \<Rightarrow> Inr xs
      | JObj items \<Rightarrow> Inr (map (\<lambda>kv. JStr (fst kv)) items)
      | JStr s \<Rightarrow> Inr (map (\<lambda>c. JStr [c]) s)
      | _ \<Rightarrow> Inl TypeError)"

text \<open>\<open>[result.get("snippet", "") for result in results]\<close>: the first element that is
  no dict stops the comprehension.\<close>

fun get_snippets :: "json list \<Rightarrow> py_error + json list" where
  "get_snippets [] = Inr []"
| "get_snippets (result # results) =
     (case dict_get result ''snippet'' (JStr []) of
        Inl e \<Rightarrow> Inl e
      | Inr s \<Rightarrow> (case get_snippets results of Inl e \<Rightarrow> Inl e | Inr ss \<Rightarrow> Inr (s # ss)))"

text \<open>\<open>"\n".join(snippets)\<close>: every item has to be a string.\<close>

fun join_strs :: "string \<Rightarrow> string list \<Rightarrow> string" where
  "join_strs sep [] = []"
| "join_strs sep [s] = s"
| "join_strs sep (s # t # ss) = s @ sep @ join_strs sep (t # ss)"

fun as_strs :: "json list \<Rightarrow> py_error + string list" where
  "as_strs [] = Inr []"
| "as_strs (v # vs) =
     (case v of
        JStr s \<Rightarrow> (case as_strs vs of Inl e \<Rightarrow> Inl e | Inr ss \<Rightarrow> Inr (s # ss))
      | _ \<Rightarrow> Inl TypeError)"

definition py_join :: "string \<Rightarrow> json list \<Rightarrow> py_error + string" where
  "py_join sep vs = (case as_strs vs of Inl e \<Rightarrow> Inl e | Inr ss \<Rightarrow> Inr (join_strs sep ss))"

text \<open>Lines 35 to 38: from the decoded body to the returned text.\<close>

definition snippets_text :: "json \<Rightarrow> py_error + string" where
  "snippets_text body =
     (case dict_get body ''organic_results'' (JArr []) of
        Inl e \<Rightarrow> Inl e
      | Inr results \<Rightarrow>
          (case py_iter results of
             Inl e \<Rightarrow> Inl e
           | Inr rs \<Rightarrow>
               (case get_snippets rs of
                  Inl e \<Rightarrow> Inl e
                | Inr snippets \<Rightarrow> py_join ''\<newline>'' snippets)))"

text \<open>The handler \<open>except requests.exceptions.RequestException as e\<close>: a request exception
  is reported and replaced by the empty text, any other exception goes on to the caller.\<close>

definition search_except :: "py_error \<Rightarrow> 'w state \<Rightarrow> (py_error + string) \<times> 'w state" where
  "search_except e st =
     (case e of
        RequestException x \<Rightarrow> (Inr [], emit (SidebarError ''Error during web search: '' e) st)
      | _ \<Rightarrow> (Inl e, st))"

definition search_request :: "'w env \<Rightarrow> string \<Rightarrow> get_request" where
  "search_request env query =
     \<lparr>url = ''https://serpapi.com/search'', q = query, api_key = serpapi_key env, num = 5\<rparr>"

definition search :: "'w env \<Rightarrow> string \<Rightarrow> string \<Rightarrow> 'w state \<Rightarrow> (py_error + string) \<times> 'w state" where
  "search env entity prompt st =
     (case py_format (format_ext env) prompt entity of
        Inl e \<Rightarrow> search_except e st
      | Inr query \<Rightarrow>
          (let req = search_request env query;
               (r, w) = requests_get env (world st) req;
               st1 = emit (HttpGet req) (st\<lparr>world := w\<rparr>)
           in case r of
                Inl e \<Rightarrow> search_except e st1
              | Inr response \<Rightarrow>
                  (case raise_for_status response of
                     Inl e \<Rightarrow> search_except e st1
                   | Inr u \<Rightarrow>
                       (case json_body response of
                          Inl e \<Rightarrow> search_except e st1
                        | Inr body \<Rightarrow>
                            (case snippets_text body of
                               Inl e \<Rightarrow> search_except e st1
                             | Inr text \<Rightarrow> (Inr text, st1))))))"

section \<open>\<open>LLMProcessor.extract_information\<close>\<close>

text \<open>\<open>str.strip()\<close> removes the characters that \<open>str.isspace\<close> accepts from both ends:
  below 256 these are the code points 9 to 13, 28 to 32, 133 and 160.\<close>

definition is_space :: "char \<Rightarrow> bool" where
  "is_space c = (let n = (of_char c :: nat)
                 in (9 \<le> n \<and> n \<le> 13) \<or> (28 \<le> n \<and> n \<le> 32) \<or> n = 133 \<or> n = 160)"

definition py_strip :: "string \<Rightarrow> string" where
  "py_strip s = rev (dropWhile is_space (rev (dropWhile is_space s)))"

definition system_message :: chat_message where
  "system_message =
     \<lparr>role = ''system'',
      content = ''You are a helpful assistant that extracts specific information from web search results.''\<rparr>"

definition user_message :: "string \<Rightarrow> string \<Rightarrow> chat_message" where
  "user_message query search_results =
     \<lparr>role = ''user'',
      content = ''Extract information from the following search results based on the prompt: ''
        @ [CHR 0x27] @ query @ [CHR 0x27] @ ''\<newline>\<newline>Search Results:\<newline>'' @ search_results
        @ ''\<newline>\<newline>Extracted Information:''\<rparr>"

definition extraction_request :: "string \<Rightarrow> string \<Rightarrow> chat_request" where
  "extraction_request query search_results =
     \<lparr>model = ''mixtral-8x7b-32768'',
      messages = [system_message, user_message query search_results],
      max_tokens = 150,
      temperature = 0.5\<rparr>"

text \<open>\<open>response.choices[0].message.content.strip()\<close>: no choice is an \<open>IndexError\<close>,
  a content of \<open>None\<close> an \<open>AttributeError\<close>.\<close>

definition first_content :: "chat_response \<Rightarrow> py_error + string" where
  "first_content response =
     (case choices response of
        [] \<Rightarrow> Inl IndexError
      | c # cs \<Rightarrow> (case c of None \<Rightarrow> Inl AttributeError | Some s \<Rightarrow> Inr (py_strip s)))"

text \<open>The handler \<open>except Exception as e\<close>.\<close>

definition extract_except :: "py_error \<Rightarrow> 'w state \<Rightarrow> (py_error + string) \<times> 'w state" where
  "extract_except e st = (Inr [], emit (SidebarError ''Error during LLM extraction: '' e) st)"

text \<open>The messages are built before the \<open>try\<close>: an exception of \<open>prompt.format\<close> is
  not handled here.\<close>

definition extract_information ::
    "'w env \<Rightarrow> string \<Rightarrow> string \<Rightarrow> string \<Rightarrow> 'w state \<Rightarrow> (py_error + string) \<times> 'w state" where
  "extract_information env entity prompt search_results st =
     (case py_format (format_ext env) prompt entity of
        Inl e \<Rightarrow> (Inl e, st)
      | Inr query \<Rightarrow>
          (let req = extraction_request query search_results;
               (r, w) = chat_completions_create env (world st) req;
               st1 = emit (ChatCompletion req) (st\<lparr>world := w\<rparr>)
           in case r of
                Inl e \<Rightarrow> extract_except e st1
              | Inr response \<Rightarrow>
                  (case first_content response of
                     Inl e \<Rightarrow> extract_except e st1
                   | Inr answer \<Rightarrow> (Inr answer, st1))))"

section \<open>\<open>DataProcessor.process_entities\<close>\<close>

record extraction_record =
  Entity :: string
  Extracted_Information :: string

text \<open>The loop \<open>for idx, entity in enumerate(entities)\<close>, with \<open>num_entities\<close>, the index
  and the list \<open>results\<close> built so far. The division of the progress value is in the
  body.\<close>

fun process_loop :: "'w env \<Rightarrow> string \<Rightarrow> nat \<Rightarrow> nat \<Rightarrow> string list \<Rightarrow> extraction_record list
    \<Rightarrow> 'w state \<Rightarrow> (py_error + extraction_record list) \<times> 'w state" where
  "process_loop env prompt num_entities idx [] results st = (Inr results, st)"
| "process_loop env prompt num_entities idx (entity # rest) results st =
     (if num_entities = 0 then (Inl ZeroDivisionError, st)
      else
        (case search env entity prompt (emit (Progress (idx + 1) num_entities) st) of
           (Inl e, st2) \<Rightarrow> (Inl e, st2)
         | (Inr search_results, st2) \<Rightarrow>
             (if search_results \<noteq> [] then
                (case extract_information env entity prompt search_results st2 of
                   (Inl e, st3) \<Rightarrow> (Inl e, st3)
                 | (Inr extracted_info, st3) \<Rightarrow>
                     process_loop env prompt num_entities (idx + 1) rest
                       (results @ [\<lparr>Entity = entity, Extracted_Information = extracted_info\<rparr>])
                       (emit Sleep st3))
              else
                process_loop env prompt num_entities (idx + 1) rest
                  (results @ [\<lparr>Entity = entity, Extracted_Information = ''No data found''\<rparr>])
                  (emit Sleep st2))))"

definition process_entities :: "'w env \<Rightarrow> string list \<Rightarrow> string \<Rightarrow> 'w state
    \<Rightarrow> (py_error + extraction_record list) \<times> 'w state" where
  "process_entities env entities prompt st =
     process_loop env prompt (length entities) 0 entities [] st"

section \<open>The shapes the interfaces expect\<close>

text \<open>A search result is an object whose \<open>snippet\<close>, when present, is a string; a
  body is an object whose \<open>organic_results\<close>, when present, is an array of such results.
  A search service of the expected kind fails with request exceptions only, and answers with
  an error status, an undecodable body (a request exception of \<open>response.json()\<close>) or a
  body of that shape. A template is accepted for an entity when \<open>str.format\<close> returns.\<close>

fun result_ok :: "json \<Rightarrow> bool" where
  "result_ok (JObj items) =
     (case map_of items ''snippet'' of None \<Rightarrow> True | Some (JStr s) \<Rightarrow> True | Some _ \<Rightarrow> False)"
| "result_ok _ = False"

fun snippet_of :: "json \<Rightarrow> string" where
  "snippet_of (JObj items) = (case map_of items ''snippet'' of Some (JStr s) \<Rightarrow> s | _ \<Rightarrow> [])"
| "snippet_of _ = []"

definition body_ok :: "json \<Rightarrow> bool" where
  "body_ok body =
     (case body of
        JObj items \<Rightarrow>
          (case map_of items ''organic_results'' of
             None \<Rightarrow> True
           | Some (JArr rs) \<Rightarrow> list_all result_ok rs
           | Some _ \<Rightarrow> False)
      | _ \<Rightarrow> False)"

definition is_request_exception :: "py_error \<Rightarrow> bool" where
  "is_request_exception e = (case e of RequestException x \<Rightarrow> True | _ \<Rightarrow> False)"

definition response_ok :: "http_response \<Rightarrow> bool" where
  "response_ok r =
     (if 400 \<le> status_code r \<and> status_code r < 600 then True
      else case json_body r of Inl e \<Rightarrow> is_request_exception e | Inr body \<Rightarrow> body_ok body)"

definition search_service_ok :: "'w env \<Rightarrow> bool" where
  "search_service_ok env =
     (\<forall>w req. case fst (requests_get env w req) of
                 Inl e \<Rightarrow> is_request_exception e
               | Inr r \<Rightarrow> response_ok r)"

definition format_ok :: "'w env \<Rightarrow> string \<Rightarrow> string \<Rightarrow> bool" where
  "format_ok env prompt entity =
     (case py_format (format_ext env) prompt entity of Inl e \<Rightarrow> False | Inr query \<Rightarrow> True)"

text \<open>A transport-level failure of the search call: \<open>requests.get\<close> raises a request
  exception, or the response has an error status, for which \<open>raise_for_status\<close> raises
  \<open>HTTPError\<close>. The value is the exception that the handler receives.\<close>

definition transport_failure :: "py_error + http_response \<Rightarrow> py_error option" where
  "transport_failure r =
     (case r of
        Inl e \<Rightarrow> (if is_request_exception e then Some e else None)
      | Inr response \<Rightarrow>
          (if 400 \<le> status_code response \<and> status_code response < 600
           then Some (RequestException (HTTPError (status_code response))) else None))"

text \<open>The calls of the completion service among the events.\<close>

definition is_chat_event :: "event \<Rightarrow> bool" where
  "is_chat_event ev = (case ev of ChatCompletion req \<Rightarrow> True | _ \<Rightarrow> False)"

text \<open>A failure of the model call: the call raises, or the completion has no choice or
  its first choice has no content. The value is the exception that the handler receives.\<close>

definition model_call_failure :: "py_error + chat_response \<Rightarrow> py_error option" where
  "model_call_failure r =
     (case r of
        Inl e \<Rightarrow> Some e
      | Inr response \<Rightarrow>
          (case choices response of
             [] \<Rightarrow> Some IndexError
           | None # cs \<Rightarrow> Some AttributeError
           | Some s # cs \<Rightarrow> None))"

text \<open>Text without braces: the literal parts of a template whose only replacement field
  is \<open>{entity}\<close>.\<close>

definition brace_free :: "string \<Rightarrow> bool" where
  "brace_free s = (CHR ''{'' \<notin> set s \<and> CHR ''}'' \<notin> set s)"

section \<open>Concrete runs\<close>

text \<open>Services for the examples: the search service answers from the query, the model
  service from the request, and both count the calls in the state; no template of the
  examples has a replacement field that reaches \<open>format_ext\<close>.\<close>

definition demo_prompt :: string where
  "demo_prompt = ''Who is the ceo of {entity}?''"

definition service_env ::
    "(string \<Rightarrow> py_error + http_response) \<Rightarrow> (chat_request \<Rightarrow> py_error + chat_response) \<Rightarrow> nat env" where
  "service_env search_service chat_service =
     \<lparr>requests_get = (\<lambda>w req. (search_service (q req), w + 1)),
      chat_completions_create = (\<lambda>w req. (chat_service req, w + 1)),
      format_ext = (\<lambda>t e. Inl ValueError),
      serpapi_key = Some ''secret''\<rparr>"

definition init_state :: "nat state" where
  "init_state = \<lparr>world = 0, events = []\<rparr>"

definition ok_response :: "json \<Rightarrow> py_error + http_response" where
  "ok_response body = Inr \<lparr>status_code = 200, json_body = Inr body\<rparr>"

definition acme_body :: json where
  "acme_body = JObj [(''organic_results'',
                      JArr [JObj [(''snippet'', JStr ''Jane Doe is the CEO of Acme Corp.'')]])]"

definition jane_doe :: "chat_request \<Rightarrow> py_error + chat_response" where
  "jane_doe req = Inr \<lparr>choices = [Some ''Jane Doe'']\<rparr>"

definition acme_env :: "nat env" where
  "acme_env = service_env
     (\<lambda>query. if query = ''Who is the ceo of Acme Corp?'' then ok_response acme_body
               else ok_response (JObj []))
     jane_doe"

definition null_results_env :: "nat env" where
  "null_results_env = service_env
     (\<lambda>query. if query = ''Who is the ceo of Acme Corp?'' then ok_response acme_body
               else ok_response (JObj [(''organic_results'', JNull)]))
     jane_doe"





definition outage_env :: "nat env" where
  "outage_env = service_env
     (\<lambda>query. if query = ''Who is the ceo of Acme Corp?''
               then Inl (RequestException (ConnectionError ''connection refused''))
               else Inr \<lparr>status_code = 503,
                         json_body = Inl (RequestException (JSONDecodeError ''no body''))\<rparr>)
     jane_doe"

definition multiple_choices_env :: "nat env" where
  "multiple_choices_env = service_env
     (\<lambda>query. Inr \<lparr>status_code = 300, json_body = Inr acme_body\<rparr>) jane_doe"

definition null_snippet_env :: "nat env" where
  "null_snippet_env = service_env
     (\<lambda>query. ok_response (JObj [(''organic_results'', JArr [JObj [(''snippet'', JNull)]])]))
     jane_doe"

definition acme_request :: get_request where
  "acme_request = \<lparr>url = ''https://serpapi.com/search'', q = ''Who is the ceo of Acme Corp?'',
                    api_key = Some ''secret'', num = 5\<rparr>"

definition globex_request :: get_request where
  "globex_request = \<lparr>url = ''https://serpapi.com/search'', q = ''Who is the ceo of Globex?'',
                      api_key = Some ''secret'', num = 5\<rparr>"

definition acme_chat_request :: chat_request where
  "acme_chat_request =
     extraction_request ''Who is the ceo of Acme Corp?'' ''Jane Doe is the CEO of Acme Corp.''"

definition padded_answer :: "chat_request \<Rightarrow> py_error + chat_response" where
  "padded_answer req = Inr \<lparr>choices = [Some ''  answer text \<newline>'']\<rparr>"

definition padded_env :: "nat env" where
  "padded_env = service_env (\<lambda>query. ok_response acme_body) padded_answer"

definition rate_limited :: "chat_request \<Rightarrow> py_error + chat_response" where
  "rate_limited req = Inl (OtherError ''rate limit exceeded'')"

definition throttled_env :: "nat env" where
  "throttled_env = service_env
     (\<lambda>query. if query = ''Who is the ceo of Acme Corp?'' then ok_response acme_body
               else ok_response (JObj []))
     rate_limited"

definition empty_results_env :: "nat env" where
  "empty_results_env = service_env
     (\<lambda>query. if query = ''Who is the ceo of Acme Corp?'' then ok_response acme_body
               else ok_response (JObj [(''organic_results'', JArr [])]))
     jane_doe"

section \<open>Properties of the adapters and of the loop\<close>

lemma get_snippets_ok:
  "list_all result_ok rs \<Longrightarrow> get_snippets rs = Inr (map (\<lambda>r. JStr (snippet_of r)) rs)"
proof (induction rs)
  case Nil
  then show ?case by simp
next
  case (Cons r rs)
  from Cons.prems have r: "result_ok r" and rs: "list_all result_ok rs" by simp_all
  from r obtain items where items: "r = JObj items" by (cases r) simp_all
  from r items have "dict_get r ''snippet'' (JStr []) = Inr (JStr (snippet_of r))"
    by (auto simp: dict_get_def split: option.splits json.splits)
  with Cons.IH [OF rs] show ?case by simp
qed

lemma as_strs_JStr: "as_strs (map JStr ss) = Inr ss"
  by (induction ss) simp_all

lemma py_join_JStr: "py_join sep (map (\<lambda>r. JStr (f r)) rs) = Inr (join_strs sep (map f rs))"
proof -
  have "map (\<lambda>r. JStr (f r)) rs = map JStr (map f rs)" by simp
  then show ?thesis by (simp only: py_join_def as_strs_JStr sum.case)
qed

lemma snippets_text_results:
  assumes "map_of items ''organic_results'' = Some (JArr rs)" and "list_all result_ok rs"
  shows "snippets_text (JObj items) = Inr (join_strs ''\<newline>'' (map snippet_of rs))"
  using assms by (simp add: snippets_text_def dict_get_def py_iter_def get_snippets_ok py_join_JStr)

lemma snippets_text_absent:
  assumes "map_of items ''organic_results'' = None"
  shows "snippets_text (JObj items) = Inr []"
  using assms by (simp add: snippets_text_def dict_get_def py_iter_def py_join_def)

lemma snippets_text_ok:
  assumes "body_ok body"
  shows "\<exists>text. snippets_text body = Inr text"
proof -
  from assms obtain items where items: "body = JObj items"
    by (cases body) (simp_all add: body_ok_def)
  show ?thesis
  proof (cases "map_of items ''organic_results''")
    case None
    with items show ?thesis by (simp add: snippets_text_absent)
  next
    case (Some v)
    with assms items obtain rs where "v = JArr rs" and "list_all result_ok rs"
      by (cases v) (simp_all add: body_ok_def)
    with Some items show ?thesis by (simp add: snippets_text_results)
  qed
qed

lemma raise_for_status_error:
  "400 \<le> status_code r \<Longrightarrow> status_code r < 600 \<Longrightarrow>
   raise_for_status r = Inl (RequestException (HTTPError (status_code r)))"
  by (simp add: raise_for_status_def)

lemma raise_for_status_pass:
  "\<not> (400 \<le> status_code r \<and> status_code r < 600) \<Longrightarrow> raise_for_status r = Inr ()"
  by (simp add: raise_for_status_def)

lemma search_get_raises:
  assumes "py_format (format_ext env) prompt entity = Inr query"
    and "requests_get env (world st) (search_request env query) = (Inl e, w)"
  shows "search env entity prompt st =
         search_except e (emit (HttpGet (search_request env query)) (st\<lparr>world := w\<rparr>))"
  using assms by (simp add: search_def)

lemma search_status_raises:
  assumes "py_format (format_ext env) prompt entity = Inr query"
    and "requests_get env (world st) (search_request env query) = (Inr response, w)"
    and "raise_for_status response = Inl e"
  shows "search env entity prompt st =
         search_except e (emit (HttpGet (search_request env query)) (st\<lparr>world := w\<rparr>))"
  using assms by (simp add: search_def)

lemma search_json_raises:
  assumes "py_format (format_ext env) prompt entity = Inr query"
    and "requests_get env (world st) (search_request env query) = (Inr response, w)"
    and "raise_for_status response = Inr ()"
    and "json_body response = Inl e"
  shows "search env entity prompt st =
         search_except e (emit (HttpGet (search_request env query)) (st\<lparr>world := w\<rparr>))"
  using assms by (simp add: search_def)

lemma search_body:
  assumes "py_format (format_ext env) prompt entity = Inr query"
    and "requests_get env (world st) (search_request env query) = (Inr response, w)"
    and "raise_for_status response = Inr ()"
    and "json_body response = Inr body"
  shows "search env entity prompt st =
         (case snippets_text body of
            Inl e \<Rightarrow> search_except e (emit (HttpGet (search_request env query)) (st\<lparr>world := w\<rparr>))
          | Inr text \<Rightarrow> (Inr text, emit (HttpGet (search_request env query)) (st\<lparr>world := w\<rparr>)))"
  using assms by (simp add: search_def Let_def)

lemma search_except_request:
  "is_request_exception e \<Longrightarrow>
   search_except e st = (Inr [], emit (SidebarError ''Error during web search: '' e) st)"
  by (cases e) (simp_all add: is_request_exception_def search_except_def)

lemma search_returns:
  assumes f: "format_ok env prompt entity" and s: "search_service_ok env"
  shows "\<exists>text st'. search env entity prompt st = (Inr text, st')"
proof -
  from f obtain query where query: "py_format (format_ext env) prompt entity = Inr query"
    by (auto simp: format_ok_def split: sum.splits)
  obtain r w where rw: "requests_get env (world st) (search_request env query) = (r, w)"
    by (cases "requests_get env (world st) (search_request env query)")
  from s rw have ok: "case r of Inl e \<Rightarrow> is_request_exception e | Inr resp \<Rightarrow> response_ok resp"
    unfolding search_service_ok_def by (metis fst_conv)
  show ?thesis
  proof (cases r)
    case (Inl e)
    with ok have "is_request_exception e" by simp
    with search_get_raises [OF query] rw Inl show ?thesis
      by (simp add: search_except_request)
  next
    case (Inr resp)
    with ok have resp: "response_ok resp" by simp
    from rw Inr have get: "requests_get env (world st) (search_request env query) = (Inr resp, w)"
      by simp
    show ?thesis
    proof (cases "400 \<le> status_code resp \<and> status_code resp < 600")
      case True
      then have err: "raise_for_status resp = Inl (RequestException (HTTPError (status_code resp)))"
        by (simp add: raise_for_status_error)
      from search_status_raises [OF query get err] show ?thesis
        by (simp add: search_except_def)
    next
      case False
      then have pass: "raise_for_status resp = Inr ()" by (rule raise_for_status_pass)
      show ?thesis
      proof (cases "json_body resp")
        case (Inl e)
        with resp False have "is_request_exception e" by (simp add: response_ok_def)
        with search_json_raises [OF query get pass Inl] show ?thesis
          by (simp add: search_except_request)
      next
        case (Inr body)
        with resp False have "body_ok body" by (simp add: response_ok_def)
        then obtain t where "snippets_text body = Inr t"
          using snippets_text_ok by blast
        with search_body [OF query get pass Inr] show ?thesis by simp
      qed
    qed
  qed
qed

lemma extract_returns:
  assumes f: "format_ok env prompt entity"
  shows "\<exists>answer st'. extract_information env entity prompt text st = (Inr answer, st')"
proof -
  from f obtain query where query: "py_format (format_ext env) prompt entity = Inr query"
    by (auto simp: format_ok_def split: sum.splits)
  obtain r w where rw: "chat_completions_create env (world st) (extraction_request query text) = (r, w)"
    by (cases "chat_completions_create env (world st) (extraction_request query text)")
  show ?thesis
    using query rw
    by (auto simp: extract_information_def extract_except_def Let_def split: sum.splits)
qed

lemma process_loop_prefix:
  "process_loop env prompt n idx (pre @ es) results st =
     (case process_loop env prompt n idx pre results st of
        (Inl e, s) \<Rightarrow> (Inl e, s)
      | (Inr rs, s) \<Rightarrow> process_loop env prompt n (idx + length pre) es rs s)"
proof (induction pre arbitrary: idx results st)
  case Nil
  show ?case by simp
next
  case (Cons p pre)
  show ?case
    by (simp add: Cons.IH split: prod.splits sum.splits)
qed

lemma process_loop_results:
  "process_loop env prompt n idx es results st = (Inr out, st') \<Longrightarrow>
   \<exists>new. out = results @ new \<and> map Entity new = es"
proof (induction es arbitrary: idx results st)
  case Nil
  then show ?case by simp
next
  case (Cons e es)
  from Cons.prems have n: "n \<noteq> 0" by (auto split: if_splits)
  obtain r s2 where srch: "search env e prompt (emit (Progress (idx + 1) n) st) = (r, s2)"
    by (cases "search env e prompt (emit (Progress (idx + 1) n) st)")
  with Cons.prems n obtain t where r: "r = Inr t" by (cases r) auto
  show ?case
  proof (cases "t = []")
    case True
    with Cons.prems n srch r
    have "process_loop env prompt n (idx + 1) es
            (results @ [\<lparr>Entity = e, Extracted_Information = ''No data found''\<rparr>]) (emit Sleep s2)
          = (Inr out, st')" by simp
    from Cons.IH [OF this] show ?thesis by auto
  next
    case False
    obtain x s3 where ext: "extract_information env e prompt t s2 = (x, s3)"
      by (cases "extract_information env e prompt t s2")
    with Cons.prems n srch r False obtain info where x: "x = Inr info" by (cases x) auto
    with Cons.prems n srch r False ext
    have "process_loop env prompt n (idx + 1) es
            (results @ [\<lparr>Entity = e, Extracted_Information = info\<rparr>]) (emit Sleep s3)
          = (Inr out, st')" by simp
    from Cons.IH [OF this] show ?thesis by auto
  qed
qed

lemma process_loop_returns:
  assumes "\<forall>e \<in> set es. format_ok env prompt e" and "search_service_ok env"
    and "es \<noteq> [] \<longrightarrow> n \<noteq> 0"
  shows "\<exists>out st'. process_loop env prompt n idx es results st = (Inr out, st')"
  using assms
proof (induction es arbitrary: idx results st)
  case Nil
  show ?case by simp
next
  case (Cons e es)
  from Cons.prems have n: "n \<noteq> 0" and fe: "format_ok env prompt e"
    and fes: "\<forall>e \<in> set es. format_ok env prompt e" by simp_all
  from search_returns [OF fe Cons.prems(2)]
  obtain t s2 where srch: "search env e prompt (emit (Progress (idx + 1) n) st) = (Inr t, s2)"
    by blast
  from extract_returns [OF fe]
  obtain info s3 where ext: "extract_information env e prompt t s2 = (Inr info, s3)"
    by blast
  have rest: "\<And>i rs s. \<exists>out st'. process_loop env prompt n i es rs s = (Inr out, st')"
    using Cons.IH [OF fes Cons.prems(2)] n by simp
  show ?case
    using n srch ext rest by simp
qed

lemmas format_simps = py_format_def field_special_def field_value_def prepend_def is_digit_def
lemmas body_simps = snippets_text_def dict_get_def py_iter_def py_join_def
lemmas search_simps = search_def search_request_def search_except_def raise_for_status_def emit_def
lemmas extract_simps = extract_information_def extraction_request_def extract_except_def
  first_content_def py_strip_def is_space_def system_message_def user_message_def

lemma demo_prompt_acme:
  "py_format (\<lambda>t e. Inl ValueError) demo_prompt ''Acme Corp'' = Inr ''Who is the ceo of Acme Corp?''"
  by (simp add: demo_prompt_def format_simps)

lemma demo_prompt_globex:
  "py_format (\<lambda>t e. Inl ValueError) demo_prompt ''Globex'' = Inr ''Who is the ceo of Globex?''"
  by (simp add: demo_prompt_def format_simps)

lemma acme_env_ok: "search_service_ok acme_env"
  by (simp add: search_service_ok_def acme_env_def service_env_def ok_response_def acme_body_def
      response_ok_def body_ok_def)

lemma acme_env_format:
  "\<forall>e \<in> set [''Acme Corp'', ''Globex'']. format_ok acme_env demo_prompt e"
  by (simp add: format_ok_def acme_env_def service_env_def demo_prompt_acme demo_prompt_globex)


lemma search_transport_failure:
  assumes q: "py_format (format_ext env) prompt entity = Inr query"
    and g: "requests_get env (world st) (search_request env query) = (r, w)"
    and t: "transport_failure r = Some e"
  shows "search env entity prompt st =
           (Inr [], \<lparr>world = w, events = events st @
              [HttpGet (search_request env query), SidebarError ''Error during web search: '' e]\<rparr>)"
proof (cases r)
  case (Inl x)
  with t have "x = e" and "is_request_exception e"
    by (auto simp: transport_failure_def split: if_splits)
  with search_get_raises [OF q] g Inl show ?thesis
    by (simp add: search_except_request emit_def)
next
  case (Inr response)
  with t have e: "e = RequestException (HTTPError (status_code response))"
    and s: "400 \<le> status_code response" "status_code response < 600"
    by (auto simp: transport_failure_def split: if_splits)
  from g Inr have g': "requests_get env (world st) (search_request env query) = (Inr response, w)"
    by simp
  from search_status_raises [OF q g' raise_for_status_error [OF s]] e show ?thesis
    by (simp add: search_except_def emit_def)
qed

lemma process_loop_sentinel_step:
  assumes "n \<noteq> 0"
    and "search env entity prompt (emit (Progress (idx + 1) n) st) = (Inr [], st2)"
  shows "process_loop env prompt n idx (entity # rest) results st =
           process_loop env prompt n (idx + 1) rest
             (results @ [\<lparr>Entity = entity, Extracted_Information = ''No data found''\<rparr>])
             (emit Sleep st2)"
  using assms by simp

lemma search_except_chat_events:
  "filter is_chat_event (events (snd (search_except e st))) = filter is_chat_event (events st)"
  by (cases e) (simp_all add: search_except_def emit_def is_chat_event_def)

lemma search_chat_events:
  "filter is_chat_event (events (snd (search env entity prompt st)))
     = filter is_chat_event (events st)"
proof (cases "py_format (format_ext env) prompt entity")
  case (Inl e)
  then show ?thesis by (simp add: search_def search_except_chat_events)
next
  case (Inr query)
  obtain r w where g: "requests_get env (world st) (search_request env query) = (r, w)"
    by (cases "requests_get env (world st) (search_request env query)")
  have base: "filter is_chat_event (events (emit (HttpGet (search_request env query)) (st\<lparr>world := w\<rparr>)))
                = filter is_chat_event (events st)"
    by (simp add: emit_def is_chat_event_def)
  from Inr g base show ?thesis
    by (simp add: search_def Let_def search_except_chat_events split: sum.splits)
qed

lemma process_entities_returns:
  assumes "\<forall>e \<in> set entities. format_ok env prompt e" and "search_service_ok env"
  shows "\<exists>out st'. process_entities env entities prompt st = (Inr out, st')
           \<and> map Entity out = entities"
proof -
  have "entities \<noteq> [] \<longrightarrow> length entities \<noteq> 0" by simp
  from process_loop_returns [OF assms this]
  obtain out st' where run: "process_loop env prompt (length entities) 0 entities [] st = (Inr out, st')"
    by blast
  from process_loop_results [OF run] have "map Entity out = entities" by simp
  with run show ?thesis by (auto simp: process_entities_def)
qed

lemma outage_env_ok: "search_service_ok outage_env"
  by (simp add: search_service_ok_def outage_env_def service_env_def response_ok_def
      is_request_exception_def)

lemma outage_env_format:
  "\<forall>e \<in> set [''Acme Corp'', ''Globex'']. format_ok outage_env demo_prompt e"
  by (simp add: format_ok_def outage_env_def service_env_def demo_prompt_acme demo_prompt_globex)

lemma acme_first_iteration:
  "process_loop acme_env demo_prompt 2 0 [''Acme Corp''] [] init_state
     = (Inr [\<lparr>Entity = ''Acme Corp'', Extracted_Information = ''Jane Doe''\<rparr>],
        \<lparr>world = 2, events = [Progress 1 2, HttpGet acme_request,
                               ChatCompletion acme_chat_request, Sleep]\<rparr>)"
  by (simp add: acme_env_def service_env_def init_state_def ok_response_def acme_body_def
      jane_doe_def demo_prompt_acme search_simps body_simps extract_information_def
      extract_except_def first_content_def py_strip_def is_space_def
      acme_request_def acme_chat_request_def)

lemma acme_globex_search:
  "search acme_env ''Globex'' demo_prompt
     (emit (Progress 2 2) \<lparr>world = 2, events = [Progress 1 2, HttpGet acme_request,
                               ChatCompletion acme_chat_request, Sleep]\<rparr>)
     = (Inr [], \<lparr>world = 3, events = [Progress 1 2, HttpGet acme_request,
                               ChatCompletion acme_chat_request, Sleep, Progress 2 2,
                               HttpGet globex_request]\<rparr>)"
  by (simp add: acme_env_def service_env_def ok_response_def demo_prompt_globex
      search_simps body_simps globex_request_def)

lemma py_strip_suffix:
  "dropWhile is_space s =
     py_strip s @ rev (takeWhile is_space (rev (dropWhile is_space s)))"
proof -
  let ?t = "dropWhile is_space s"
  have "py_strip s @ rev (takeWhile is_space (rev ?t))
          = rev (takeWhile is_space (rev ?t) @ dropWhile is_space (rev ?t))"
    by (simp only: py_strip_def rev_append)
  also have "\<dots> = ?t"
    by (simp only: takeWhile_dropWhile_id rev_rev_ident)
  finally show ?thesis by (rule sym)
qed

lemma py_strip_decompose:
  "\<exists>pre post. s = pre @ py_strip s @ post \<and> list_all is_space pre \<and> list_all is_space post"
proof -
  let ?t = "dropWhile is_space s"
  have "s = takeWhile is_space s @ ?t" by simp
  with py_strip_suffix [of s]
  have s: "s = takeWhile is_space s @ py_strip s @ rev (takeWhile is_space (rev ?t))"
    by simp
  have p1: "list_all is_space (takeWhile is_space s)"
    by (simp add: list_all_iff) (meson set_takeWhileD)
  have p2: "list_all is_space (rev (takeWhile is_space (rev ?t)))"
    by (simp add: list_all_iff) (meson set_takeWhileD)
  from s p1 p2 show ?thesis by blast
qed

lemma py_strip_ends:
  assumes "py_strip s \<noteq> []"
  shows "\<not> is_space (hd (py_strip s)) \<and> \<not> is_space (last (py_strip s))"
proof -
  let ?t = "dropWhile is_space s"
  let ?u = "dropWhile is_space (rev ?t)"
  from assms have u: "?u \<noteq> []" by (simp add: py_strip_def)
  have t: "?t \<noteq> []"
  proof
    assume e: "?t = []"
    have "?u = []" unfolding e by simp
    with u show False by contradiction
  qed
  have "\<not> is_space (hd ?u)" using u by (rule hd_dropWhile)
  moreover have "last (py_strip s) = hd ?u" using u by (simp add: py_strip_def last_rev)
  ultimately have l: "\<not> is_space (last (py_strip s))" by simp
  have "\<not> is_space (hd ?t)" using t by (rule hd_dropWhile)
  moreover have "hd ?t = hd (py_strip s)"
    using py_strip_suffix [of s] assms by (metis hd_append2)
  ultimately show ?thesis using l by simp
qed

lemma extract_call_returns:
  assumes "py_format (format_ext env) prompt entity = Inr query"
    and "chat_completions_create env (world st) (extraction_request query search_results) = (Inr response, w)"
    and "choices response = Some s # others"
  shows "extract_information env entity prompt search_results st =
           (Inr (py_strip s),
            \<lparr>world = w, events = events st @ [ChatCompletion (extraction_request query search_results)]\<rparr>)"
  using assms by (simp add: extract_information_def first_content_def emit_def)

lemma extract_call_fails:
  assumes "py_format (format_ext env) prompt entity = Inr query"
    and "chat_completions_create env (world st) (extraction_request query search_results) = (r, w)"
    and "model_call_failure r = Some e"
  shows "extract_information env entity prompt search_results st =
           (Inr [],
            \<lparr>world = w, events = events st @ [ChatCompletion (extraction_request query search_results),
               SidebarError ''Error during LLM extraction: '' e]\<rparr>)"
  using assms
  by (auto simp: extract_information_def first_content_def emit_def extract_except_def
      model_call_failure_def split: sum.splits list.splits option.splits)

lemma process_loop_extract_step:
  assumes "n \<noteq> 0"
    and "search env entity prompt (emit (Progress (idx + 1) n) st) = (Inr t, st2)"
    and "t \<noteq> []"
    and "extract_information env entity prompt t st2 = (Inr info, st3)"
  shows "process_loop env prompt n idx (entity # rest) results st =
           process_loop env prompt n (idx + 1) rest
             (results @ [\<lparr>Entity = entity, Extracted_Information = info\<rparr>]) (emit Sleep st3)"
  using assms by simp

lemma extract_chat_events:
  assumes "py_format (format_ext env) prompt entity = Inr query"
  shows "filter is_chat_event (events (snd (extract_information env entity prompt t st)))
           = filter is_chat_event (events st) @ [ChatCompletion (extraction_request query t)]
       \<and> world (snd (extract_information env entity prompt t st))
           = snd (chat_completions_create env (world st) (extraction_request query t))"
proof -
  obtain r w where c: "chat_completions_create env (world st) (extraction_request query t) = (r, w)"
    by (cases "chat_completions_create env (world st) (extraction_request query t)")
  show ?thesis
  proof (cases "model_call_failure r")
    case None
    then obtain response s cs where "r = Inr response" and "choices response = Some s # cs"
      by (auto simp: model_call_failure_def split: sum.splits list.splits option.splits)
    with c extract_call_returns [OF assms, of st t response w s cs] show ?thesis
      by (simp add: is_chat_event_def)
  next
    case (Some e)
    from extract_call_fails [OF assms c Some] c show ?thesis
      by (simp add: is_chat_event_def)
  qed
qed

lemma ceo_prompt_format:
  "py_format ext ''Who is the ceo of {entity}?'' entity = Inr (''Who is the ceo of '' @ entity @ ''?'')"
  by (simp add: format_simps)

lemma format_literal_char:
  assumes "c \<noteq> CHR ''{''" and "c \<noteq> CHR ''}''"
  shows "format_from ext entity Literal (c # cs) = prepend [c] (format_from ext entity Literal cs)"
  using assms by (cases cs) (simp_all add: prepend_def)

lemma prepend_prepend: "prepend s (prepend t r) = prepend (s @ t) r"
  by (cases r) (simp_all add: prepend_def)

lemma format_literal_prefix:
  assumes "brace_free pre"
  shows "format_from ext entity Literal (pre @ rest) = prepend pre (format_from ext entity Literal rest)"
  using assms
proof (induction pre)
  case Nil
  show ?case by (cases "format_from ext entity Literal rest") (simp_all add: prepend_def)
next
  case (Cons c pre)
  then have c: "c \<noteq> CHR ''{''" "c \<noteq> CHR ''}''" and pre: "brace_free pre"
    by (auto simp: brace_free_def)
  have "format_from ext entity Literal ((c # pre) @ rest)
          = prepend [c] (format_from ext entity Literal (pre @ rest))"
    using format_literal_char [OF c] by simp
  with Cons.IH [OF pre] show ?case by (simp add: prepend_prepend)
qed

lemma format_entity_field:
  "format_from ext entity Literal (''{entity}'' @ rest)
     = prepend entity (format_from ext entity Literal rest)"
  by (simp add: field_special_def field_value_def is_digit_def)

lemma py_format_template:
  assumes "brace_free pre" and "brace_free post"
  shows "py_format ext (pre @ ''{entity}'' @ post) entity = Inr (pre @ entity @ post)"
proof -
  have "format_from ext entity Literal (post @ []) = prepend post (format_from ext entity Literal [])"
    using assms(2) by (rule format_literal_prefix)
  then have post: "format_from ext entity Literal post = Inr post"
    by (simp add: prepend_def)
  show ?thesis
    unfolding py_format_def
    by (simp only: format_literal_prefix [OF assms(1)] format_entity_field post)
       (simp add: prepend_def)
qed

lemma py_format_unknown_field:
  "py_format ext ''Who is the {role} of {entity}?'' entity = Inl (KeyError ''role'')"
  by (simp add: format_simps)

lemma process_entities_split:
  assumes "process_loop env prompt (length (pre @ E # post)) 0 pre [] st = (Inr rs, st1)"
    and "process_loop env prompt (length (pre @ E # post)) (length pre) (E # post) rs st1 =
           process_loop env prompt (length (pre @ E # post)) (length pre + 1) post (rs @ [rec]) st3"
  shows "process_entities env (pre @ E # post) prompt st =
           process_loop env prompt (length (pre @ E # post)) (length pre + 1) post (rs @ [rec]) st3
       \<and> (\<forall>out st'. process_entities env (pre @ E # post) prompt st = (Inr out, st') \<longrightarrow>
             out ! length pre = rec)"
proof -
  let ?n = "length (pre @ E # post)"
  have run: "process_entities env (pre @ E # post) prompt st =
               process_loop env prompt ?n (length pre + 1) post (rs @ [rec]) st3"
    unfolding process_entities_def
    by (simp only: process_loop_prefix [of env prompt ?n 0 pre "E # post"] assms
        prod.case sum.case add_0)
  have len: "length rs = length pre"
    using process_loop_results [OF assms(1)] by (metis append_Nil length_map)
  have "out ! length pre = rec"
    if "process_entities env (pre @ E # post) prompt st = (Inr out, st')" for out st'
  proof -
    from that run
    have "process_loop env prompt ?n (length pre + 1) post (rs @ [rec]) st3 = (Inr out, st')"
      by simp
    from process_loop_results [OF this] obtain new where "out = (rs @ [rec]) @ new" by blast
    with len show ?thesis by (simp add: nth_append)
  qed
  with run show ?thesis by blast
qed

lemma throttled_first_iteration:
  "process_loop throttled_env demo_prompt 2 0 [''Globex''] [] init_state
     = (Inr [\<lparr>Entity = ''Globex'', Extracted_Information = ''No data found''\<rparr>],
        \<lparr>world = 1, events = [Progress 1 2, HttpGet globex_request, Sleep]\<rparr>)"
  by (simp add: throttled_env_def service_env_def init_state_def ok_response_def
      demo_prompt_globex search_simps body_simps globex_request_def)

lemma throttled_acme_search:
  "search throttled_env ''Acme Corp'' demo_prompt
     (emit (Progress 2 2) \<lparr>world = 1, events = [Progress 1 2, HttpGet globex_request, Sleep]\<rparr>)
     = (Inr ''Jane Doe is the CEO of Acme Corp.'',
        \<lparr>world = 2, events = [Progress 1 2, HttpGet globex_request, Sleep, Progress 2 2,
                               HttpGet acme_request]\<rparr>)"
  by (simp add: throttled_env_def service_env_def ok_response_def acme_body_def
      demo_prompt_acme search_simps body_simps acme_request_def)

section \<open>The claims\<close>

text \<open>
  C1 (as amended). For every sequence of \<open>n\<close> entity names and every prompt template that
  \<open>str.format\<close> accepts for them, when the search service is of the expected kind (it
  fails with request exceptions only and its bodies have the expected shape),
  \<open>process_entities\<close> returns exactly \<open>n\<close> records, one per entity and in the order
  of the input, whatever the individual search and model calls do: succeed, fail or give
  empty text.
\<close>

theorem process_entities_cardinality:
  assumes "\<forall>e \<in> set entities. format_ok env prompt e" and "search_service_ok env"
  shows "\<exists>out st'. process_entities env entities prompt st = (Inr out, st')
           \<and> length out = length entities \<and> map Entity out = entities"
proof -
  have "entities \<noteq> [] \<longrightarrow> length entities \<noteq> 0" by simp
  from process_loop_returns [OF assms this]
  obtain out st' where run: "process_loop env prompt (length entities) 0 entities [] st = (Inr out, st')"
    by blast
  from process_loop_results [OF run] have ents: "map Entity out = entities" by simp
  then have "length out = length entities" by (metis length_map)
  with run ents show ?thesis by (auto simp: process_entities_def)
qed

theorem process_entities_cardinality_witness:
  "format_ok acme_env demo_prompt ''Acme Corp'' \<and> format_ok acme_env demo_prompt ''Globex''
   \<and> search_service_ok acme_env
   \<and> (\<exists>out st'. process_entities acme_env [''Acme Corp'', ''Globex''] demo_prompt init_state = (Inr out, st')
         \<and> length out = 2 \<and> map Entity out = [''Acme Corp'', ''Globex''])"
  using process_entities_cardinality [OF acme_env_format acme_env_ok, of init_state]
    acme_env_format acme_env_ok by (simp add: numeral_2_eq_2)

text \<open>The claim as stated fails: the first search succeeds and the model answers, the
  second response carries \<open>"organic_results": null\<close>, and the \<open>TypeError\<close> of the
  iteration leaves \<open>search\<close> and \<open>process_entities\<close>; no record is returned.\<close>

theorem process_entities_cardinality_counterexample:
  "fst (process_entities null_results_env [''Acme Corp'', ''Globex''] demo_prompt init_state)
     = Inl TypeError"
  by (simp add: process_entities_def null_results_env_def service_env_def init_state_def
      ok_response_def acme_body_def jane_doe_def demo_prompt_acme demo_prompt_globex
      search_simps body_simps extract_simps)

text \<open>
  C2. For every entity \<open>E\<close> of the input, at whatever position (after the entities
  \<open>pre\<close>, before the entities \<open>post\<close>): if the search for \<open>E\<close> returns the
  empty text, the loop appends the record of \<open>E\<close> with the value \<open>No data found\<close>
  and goes on from the state the search left, after the pause: no call of the model
  service is made for \<open>E\<close>, and the record at the position of \<open>E\<close> in the result is
  that sentinel record.
\<close>

theorem empty_search_gives_sentinel:
  assumes "process_loop env prompt (length (pre @ E # post)) 0 pre [] st = (Inr rs, st1)"
    and "search env E prompt (emit (Progress (length pre + 1) (length (pre @ E # post))) st1)
           = (Inr [], st2)"
  shows "process_entities env (pre @ E # post) prompt st =
           process_loop env prompt (length (pre @ E # post)) (length pre + 1) post
             (rs @ [\<lparr>Entity = E, Extracted_Information = ''No data found''\<rparr>]) (emit Sleep st2)
       \<and> filter is_chat_event (events (emit Sleep st2)) = filter is_chat_event (events st1)
       \<and> (\<forall>out st'. process_entities env (pre @ E # post) prompt st = (Inr out, st') \<longrightarrow>
             out ! length pre = \<lparr>Entity = E, Extracted_Information = ''No data found''\<rparr>)"
proof -
  let ?n = "length (pre @ E # post)"
  let ?rec = "\<lparr>Entity = E, Extracted_Information = ''No data found''\<rparr>"
  have n: "?n \<noteq> 0" by simp
  have step: "process_loop env prompt ?n (length pre) (E # post) rs st1 =
                process_loop env prompt ?n (length pre + 1) post (rs @ [?rec]) (emit Sleep st2)"
    using process_loop_sentinel_step [OF n assms(2)] .
  have run: "process_entities env (pre @ E # post) prompt st =
               process_loop env prompt ?n (length pre + 1) post (rs @ [?rec]) (emit Sleep st2)"
    unfolding process_entities_def
    by (simp only: process_loop_prefix [of env prompt ?n 0 pre "E # post"] assms(1) step
        prod.case sum.case add_0)
  have chat: "filter is_chat_event (events (emit Sleep st2)) = filter is_chat_event (events st1)"
  proof -
    have "filter is_chat_event (events st2)
            = filter is_chat_event (events (emit (Progress (length pre + 1) ?n) st1))"
      using search_chat_events [of env E prompt "emit (Progress (length pre + 1) ?n) st1"]
      by (simp only: assms(2) snd_conv)
    then show ?thesis by (simp add: emit_def is_chat_event_def)
  qed
  have len: "length rs = length pre"
    using process_loop_results [OF assms(1)] by (metis append_Nil length_map)
  have rec: "out ! length pre = ?rec"
    if "process_entities env (pre @ E # post) prompt st = (Inr out, st')" for out st'
  proof -
    from that run
    have "process_loop env prompt ?n (length pre + 1) post (rs @ [?rec]) (emit Sleep st2) = (Inr out, st')"
      by simp
    from process_loop_results [OF this] obtain new where "out = (rs @ [?rec]) @ new" by blast
    with len show ?thesis by (simp add: nth_append)
  qed
  from run chat rec show ?thesis by blast
qed

theorem empty_search_gives_sentinel_witness:
  "process_entities acme_env [''Acme Corp'', ''Globex''] demo_prompt init_state
     = (Inr [\<lparr>Entity = ''Acme Corp'', Extracted_Information = ''Jane Doe''\<rparr>,
             \<lparr>Entity = ''Globex'', Extracted_Information = ''No data found''\<rparr>],
        \<lparr>world = 3, events = [Progress 1 2, HttpGet acme_request,
                               ChatCompletion acme_chat_request, Sleep, Progress 2 2,
                               HttpGet globex_request, Sleep]\<rparr>)"
proof -
  have len: "length ([''Acme Corp''] @ ''Globex'' # []) = (2::nat)"
    and len1: "length [''Acme Corp''] + 1 = (2::nat)" by simp_all
  have h1: "process_loop acme_env demo_prompt (length ([''Acme Corp''] @ ''Globex'' # [])) 0
              [''Acme Corp''] [] init_state
            = (Inr [\<lparr>Entity = ''Acme Corp'', Extracted_Information = ''Jane Doe''\<rparr>],
               \<lparr>world = 2, events = [Progress 1 2, HttpGet acme_request,
                               ChatCompletion acme_chat_request, Sleep]\<rparr>)"
    unfolding len by (rule acme_first_iteration)
  have h2: "search acme_env ''Globex'' demo_prompt
              (emit (Progress (length [''Acme Corp''] + 1) (length ([''Acme Corp''] @ ''Globex'' # [])))
                 \<lparr>world = 2, events = [Progress 1 2, HttpGet acme_request,
                               ChatCompletion acme_chat_request, Sleep]\<rparr>)
            = (Inr [], \<lparr>world = 3, events = [Progress 1 2, HttpGet acme_request,
                               ChatCompletion acme_chat_request, Sleep, Progress 2 2,
                               HttpGet globex_request]\<rparr>)"
    unfolding len len1 by (rule acme_globex_search)
  show ?thesis
    using empty_search_gives_sentinel [OF h1 h2] by (simp add: emit_def)
qed

text \<open>
  C3 (as amended). With a template that \<open>str.format\<close> accepts for the entities and a
  search service of the expected kind (it fails with request exceptions only and its bodies
  have the expected shape), no failure of a search call or of a model call ends the run:
  \<open>search\<close> and \<open>extract_information\<close> return for every entity and every state,
  whatever the model service does, and \<open>process_entities\<close> goes through all the
  entities and returns; no exception leaves the pipeline.
\<close>

theorem failures_absorbed:
  assumes "\<forall>e \<in> set entities. format_ok env prompt e" and "search_service_ok env"
  shows "(\<forall>e \<in> set entities. \<forall>s. \<not> isl (fst (search env e prompt s)))
       \<and> (\<forall>e \<in> set entities. \<forall>t s. \<not> isl (fst (extract_information env e prompt t s)))
       \<and> (\<exists>out st'. process_entities env entities prompt st = (Inr out, st')
             \<and> length out = length entities)"
proof -
  have a: "\<not> isl (fst (search env e prompt s))" if "e \<in> set entities" for e s
  proof -
    from that assms(1) have "format_ok env prompt e" by blast
    from search_returns [OF this assms(2), of s] show ?thesis by auto
  qed
  have b: "\<not> isl (fst (extract_information env e prompt t s))" if "e \<in> set entities" for e t s
  proof -
    from that assms(1) have "format_ok env prompt e" by blast
    from extract_returns [OF this, of t s] show ?thesis by auto
  qed
  from process_entities_returns [OF assms, of st]
  obtain out st' where run: "process_entities env entities prompt st = (Inr out, st')"
    and ents: "map Entity out = entities" by blast
  from ents have "length out = length entities" by (metis length_map)
  with run a b show ?thesis by blast
qed

theorem failures_absorbed_witness:
  "format_ok outage_env demo_prompt ''Acme Corp'' \<and> format_ok outage_env demo_prompt ''Globex''
   \<and> search_service_ok outage_env
   \<and> \<not> isl (fst (search outage_env ''Acme Corp'' demo_prompt init_state))
   \<and> \<not> isl (fst (extract_information outage_env ''Globex'' demo_prompt ''some text'' init_state))
   \<and> (\<exists>out st'. process_entities outage_env [''Acme Corp'', ''Globex''] demo_prompt init_state
          = (Inr out, st') \<and> length out = 2)"
  using failures_absorbed [OF outage_env_format outage_env_ok, of init_state]
    outage_env_format outage_env_ok by (simp add: numeral_2_eq_2)

text \<open>
  The claim as stated fails for a malformed response: \<open>search\<close> handles request
  exceptions only, so the \<open>TypeError\<close> of joining a snippet that is \<open>null\<close>
  leaves the adapter and then \<open>process_entities\<close>.
\<close>

theorem failures_absorbed_counterexample:
  "fst (search null_snippet_env ''Acme Corp'' demo_prompt init_state) = Inl TypeError
   \<and> fst (process_entities null_snippet_env [''Acme Corp''] demo_prompt init_state) = Inl TypeError"
  by (simp add: process_entities_def null_snippet_env_def service_env_def init_state_def
      ok_response_def demo_prompt_acme search_simps body_simps)




text \<open>
  C5. On a successful model call (the template is accepted, the call returns and its first
  choice has a content) \<open>extract_information\<close> returns the content of the first choice
  with the leading and trailing whitespace removed: the content is the result between two
  runs of whitespace, and the result neither begins nor ends with whitespace. For the
  content \<open>"  answer text \n"\<close> it returns \<open>"answer text"\<close>.
\<close>

theorem extract_returns_trimmed_content:
  assumes "py_format (format_ext env) prompt entity = Inr query"
    and "chat_completions_create env (world st) (extraction_request query search_results) = (Inr response, w)"
    and "choices response = Some s # others"
  shows "fst (extract_information env entity prompt search_results st) = Inr (py_strip s)
       \<and> (\<exists>pre post. s = pre @ py_strip s @ post \<and> list_all is_space pre \<and> list_all is_space post)
       \<and> (py_strip s \<noteq> [] \<longrightarrow> \<not> is_space (hd (py_strip s)) \<and> \<not> is_space (last (py_strip s)))"
  using extract_call_returns [OF assms] py_strip_decompose [of s] py_strip_ends [of s]
  by simp

theorem extract_returns_trimmed_content_witness:
  "fst (extract_information padded_env ''Acme Corp'' demo_prompt ''Jane Doe is the CEO.'' init_state)
     = Inr ''answer text''"
proof -
  have f: "py_format (format_ext padded_env) demo_prompt ''Acme Corp'' = Inr ''Who is the ceo of Acme Corp?''"
    by (simp add: padded_env_def service_env_def demo_prompt_acme)
  have c: "chat_completions_create padded_env (world init_state)
             (extraction_request ''Who is the ceo of Acme Corp?'' ''Jane Doe is the CEO.'')
           = (Inr \<lparr>choices = [Some ''  answer text \<newline>'']\<rparr>, 1)"
    by (simp add: padded_env_def service_env_def padded_answer_def init_state_def)
  have ch: "choices \<lparr>choices = [Some ''  answer text \<newline>'']\<rparr> = Some ''  answer text \<newline>'' # []"
    by simp
  have "py_strip ''  answer text \<newline>'' = ''answer text''"
    by (simp add: py_strip_def is_space_def)
  with extract_returns_trimmed_content [OF f c ch] show ?thesis by simp
qed

text \<open>
  C6 (as amended). For every entity and prompt, if the search call fails at the transport
  level, that is \<open>requests.get\<close> raises a request exception (a network error) or the
  response has an error status, 400 to 599, the adapter reports the error to the sidebar and
  returns the empty text instead of raising; the loop appends the sentinel record of that
  entity and goes on with the remaining entities, and \<open>process_entities\<close>, for the
  entity at whatever position of the input, has the sentinel record at that position of its
  result.
\<close>

theorem search_soft_failure:
  assumes "py_format (format_ext env) prompt entity = Inr query"
    and "requests_get env (world st) (search_request env query) = (r, w)"
    and "transport_failure r = Some e"
    and "n \<noteq> 0"
  shows "search env entity prompt st =
           (Inr [], \<lparr>world = w, events = events st @
              [HttpGet (search_request env query), SidebarError ''Error during web search: '' e]\<rparr>)
       \<and> process_loop env prompt n idx (entity # rest) results st =
           process_loop env prompt n (idx + 1) rest
             (results @ [\<lparr>Entity = entity, Extracted_Information = ''No data found''\<rparr>])
             \<lparr>world = w, events = events st @
                [Progress (idx + 1) n, HttpGet (search_request env query),
                 SidebarError ''Error during web search: '' e, Sleep]\<rparr>
       \<and> (n = length (pre @ entity # post) \<and> idx = length pre
            \<and> process_loop env prompt n 0 pre [] start = (Inr rs, st) \<longrightarrow>
            process_entities env (pre @ entity # post) prompt start =
              process_loop env prompt n (idx + 1) post
                (rs @ [\<lparr>Entity = entity, Extracted_Information = ''No data found''\<rparr>])
                \<lparr>world = w, events = events st @
                   [Progress (idx + 1) n, HttpGet (search_request env query),
                    SidebarError ''Error during web search: '' e, Sleep]\<rparr>
            \<and> (\<forall>out st'. process_entities env (pre @ entity # post) prompt start = (Inr out, st') \<longrightarrow>
                  out ! idx = \<lparr>Entity = entity, Extracted_Information = ''No data found''\<rparr>))"
proof -
  let ?rec = "\<lparr>Entity = entity, Extracted_Information = ''No data found''\<rparr>"
  let ?s3 = "\<lparr>world = w, events = events st @
                [Progress (idx + 1) n, HttpGet (search_request env query),
                 SidebarError ''Error during web search: '' e, Sleep]\<rparr>"
  have g: "requests_get env (world (emit (Progress (idx + 1) n) st)) (search_request env query) = (r, w)"
    using assms(2) by (simp add: emit_def)
  from search_transport_failure [OF assms(1) g assms(3)]
  have srch: "search env entity prompt (emit (Progress (idx + 1) n) st) =
          (Inr [], \<lparr>world = w, events = events st @
             [Progress (idx + 1) n, HttpGet (search_request env query),
              SidebarError ''Error during web search: '' e]\<rparr>)"
    by (simp add: emit_def)
  have step: "process_loop env prompt n idx (entity # xs) ys st =
                process_loop env prompt n (idx + 1) xs (ys @ [?rec]) ?s3" for xs ys
    using process_loop_sentinel_step [OF assms(4) srch, of xs ys] by (simp add: emit_def)
  have whole: "process_entities env (pre @ entity # post) prompt start =
                 process_loop env prompt n (idx + 1) post (rs @ [?rec]) ?s3
               \<and> (\<forall>out st'. process_entities env (pre @ entity # post) prompt start = (Inr out, st') \<longrightarrow>
                     out ! idx = ?rec)"
    if "n = length (pre @ entity # post)" and "idx = length pre"
      and "process_loop env prompt n 0 pre [] start = (Inr rs, st)"
    using process_entities_split [of env prompt pre entity post start rs st ?rec ?s3]
      step [of post rs] that by simp
  from search_transport_failure [OF assms(1) assms(2) assms(3)] step [of rest results] whole
  show ?thesis by blast
qed

theorem search_soft_failure_witness:
  "search outage_env ''Globex'' demo_prompt init_state =
     (Inr [], \<lparr>world = 1, events =
        [HttpGet \<lparr>url = ''https://serpapi.com/search'', q = ''Who is the ceo of Globex?'',
                  api_key = Some ''secret'', num = 5\<rparr>,
         SidebarError ''Error during web search: '' (RequestException (HTTPError 503))]\<rparr>)
   \<and> process_loop outage_env demo_prompt 1 0 [''Globex''] [] init_state =
     (Inr [\<lparr>Entity = ''Globex'', Extracted_Information = ''No data found''\<rparr>],
      \<lparr>world = 1, events =
        [Progress 1 1,
         HttpGet \<lparr>url = ''https://serpapi.com/search'', q = ''Who is the ceo of Globex?'',
                  api_key = Some ''secret'', num = 5\<rparr>,
         SidebarError ''Error during web search: '' (RequestException (HTTPError 503)),
         Sleep]\<rparr>)
   \<and> process_entities outage_env [''Globex''] demo_prompt init_state =
     (Inr [\<lparr>Entity = ''Globex'', Extracted_Information = ''No data found''\<rparr>],
      \<lparr>world = 1, events =
        [Progress 1 1,
         HttpGet \<lparr>url = ''https://serpapi.com/search'', q = ''Who is the ceo of Globex?'',
                  api_key = Some ''secret'', num = 5\<rparr>,
         SidebarError ''Error during web search: '' (RequestException (HTTPError 503)),
         Sleep]\<rparr>)"
proof -
  have f: "py_format (format_ext outage_env) demo_prompt ''Globex'' = Inr ''Who is the ceo of Globex?''"
    by (simp add: outage_env_def service_env_def demo_prompt_globex)
  have g: "requests_get outage_env (world init_state)
             (search_request outage_env ''Who is the ceo of Globex?'')
           = (Inr \<lparr>status_code = 503,
                   json_body = Inl (RequestException (JSONDecodeError ''no body''))\<rparr>, 1)"
    by (simp add: outage_env_def service_env_def init_state_def search_request_def)
  have t: "transport_failure (Inr \<lparr>status_code = 503,
                   json_body = Inl (RequestException (JSONDecodeError ''no body''))\<rparr>)
           = Some (RequestException (HTTPError 503))"
    by (simp add: transport_failure_def)
  have n: "(1::nat) \<noteq> 0" by simp
  show ?thesis
    using search_soft_failure [OF f g t n, where idx = 0 and rest = "[]" and results = "[]"
        and pre = "[]" and post = "[]" and rs = "[]" and start = init_state]
    by (simp add: search_request_def outage_env_def service_env_def init_state_def)
qed

text \<open>
  The claim as stated fails for a status outside 200 to 299 that is no error status:
  \<open>raise_for_status\<close> lets status 300 pass, the body is read, nothing is reported and
  the text is not empty.
\<close>

theorem search_soft_failure_counterexample:
  "search multiple_choices_env ''Acme Corp'' demo_prompt init_state =
     (Inr ''Jane Doe is the CEO of Acme Corp.'',
      \<lparr>world = 1, events =
        [HttpGet \<lparr>url = ''https://serpapi.com/search'', q = ''Who is the ceo of Acme Corp?'',
                  api_key = Some ''secret'', num = 5\<rparr>]\<rparr>)"
  by (simp add: multiple_choices_env_def service_env_def init_state_def acme_body_def
      demo_prompt_acme search_simps body_simps)

text \<open>
  C7. For every entity \<open>E\<close> of the input, at whatever position (after the entities
  \<open>pre\<close>, before the entities \<open>post\<close>), whose search text is not empty: if the
  model call fails (the call raises any exception, or the response has no choice or no
  content), the adapter reports the error to the sidebar and returns the empty text, and
  \<open>process_entities\<close> records \<open>E\<close> with the empty string, which is not the sentinel
  \<open>No data found\<close>, at the position of \<open>E\<close> in the result, and goes on with the
  remaining entities.
\<close>

theorem model_failure_gives_empty:
  assumes "process_loop env prompt (length (pre @ E # post)) 0 pre [] st = (Inr rs, st1)"
    and "search env E prompt (emit (Progress (length pre + 1) (length (pre @ E # post))) st1)
           = (Inr t, st2)"
    and "t \<noteq> []"
    and "py_format (format_ext env) prompt E = Inr query"
    and "chat_completions_create env (world st2) (extraction_request query t) = (r, w)"
    and "model_call_failure r = Some e"
  shows "extract_information env E prompt t st2 =
           (Inr [], \<lparr>world = w, events = events st2 @
              [ChatCompletion (extraction_request query t),
               SidebarError ''Error during LLM extraction: '' e]\<rparr>)
       \<and> process_entities env (pre @ E # post) prompt st =
           process_loop env prompt (length (pre @ E # post)) (length pre + 1) post
             (rs @ [\<lparr>Entity = E, Extracted_Information = []\<rparr>])
             \<lparr>world = w, events = events st2 @
                [ChatCompletion (extraction_request query t),
                 SidebarError ''Error during LLM extraction: '' e, Sleep]\<rparr>
       \<and> (\<forall>out st'. process_entities env (pre @ E # post) prompt st = (Inr out, st') \<longrightarrow>
             out ! length pre = \<lparr>Entity = E, Extracted_Information = []\<rparr>)
       \<and> \<lparr>Entity = E, Extracted_Information = []\<rparr>
           \<noteq> \<lparr>Entity = E, Extracted_Information = ''No data found''\<rparr>"
proof -
  let ?n = "length (pre @ E # post)"
  let ?s3 = "\<lparr>world = w, events = events st2 @
                [ChatCompletion (extraction_request query t),
                 SidebarError ''Error during LLM extraction: '' e, Sleep]\<rparr>"
  have n: "?n \<noteq> 0" by simp
  note ext = extract_call_fails [OF assms(4) assms(5) assms(6)]
  have step: "process_loop env prompt ?n (length pre) (E # post) rs st1 =
                process_loop env prompt ?n (length pre + 1) post
                  (rs @ [\<lparr>Entity = E, Extracted_Information = []\<rparr>]) ?s3"
    using process_loop_extract_step [OF n assms(2) assms(3) ext, of post rs]
    by (simp add: emit_def)
  from process_entities_split [OF assms(1) step] ext show ?thesis by simp
qed

theorem model_failure_gives_empty_witness:
  "process_entities throttled_env [''Globex'', ''Acme Corp''] demo_prompt init_state
     = (Inr [\<lparr>Entity = ''Globex'', Extracted_Information = ''No data found''\<rparr>,
             \<lparr>Entity = ''Acme Corp'', Extracted_Information = []\<rparr>],
        \<lparr>world = 3, events =
           [Progress 1 2, HttpGet globex_request, Sleep, Progress 2 2, HttpGet acme_request,
            ChatCompletion acme_chat_request,
            SidebarError ''Error during LLM extraction: '' (OtherError ''rate limit exceeded''),
            Sleep]\<rparr>)"
proof -
  have len: "length ([''Globex''] @ ''Acme Corp'' # []) = (2::nat)"
    and len1: "length [''Globex''] + 1 = (2::nat)" by simp_all
  have h1: "process_loop throttled_env demo_prompt (length ([''Globex''] @ ''Acme Corp'' # [])) 0
              [''Globex''] [] init_state
            = (Inr [\<lparr>Entity = ''Globex'', Extracted_Information = ''No data found''\<rparr>],
               \<lparr>world = 1, events = [Progress 1 2, HttpGet globex_request, Sleep]\<rparr>)"
    unfolding len by (rule throttled_first_iteration)
  have h2: "search throttled_env ''Acme Corp'' demo_prompt
              (emit (Progress (length [''Globex''] + 1) (length ([''Globex''] @ ''Acme Corp'' # [])))
                 \<lparr>world = 1, events = [Progress 1 2, HttpGet globex_request, Sleep]\<rparr>)
            = (Inr ''Jane Doe is the CEO of Acme Corp.'',
               \<lparr>world = 2, events = [Progress 1 2, HttpGet globex_request, Sleep, Progress 2 2,
                               HttpGet acme_request]\<rparr>)"
    unfolding len len1 by (rule throttled_acme_search)
  have t: "''Jane Doe is the CEO of Acme Corp.'' \<noteq> []" by simp
  have f: "py_format (format_ext throttled_env) demo_prompt ''Acme Corp''
             = Inr ''Who is the ceo of Acme Corp?''"
    by (simp add: throttled_env_def service_env_def demo_prompt_acme)
  have c: "chat_completions_create throttled_env
             (world \<lparr>world = 2, events = [Progress 1 2, HttpGet globex_request, Sleep, Progress 2 2,
                               HttpGet acme_request]\<rparr>)
             (extraction_request ''Who is the ceo of Acme Corp?'' ''Jane Doe is the CEO of Acme Corp.'')
           = (Inl (OtherError ''rate limit exceeded''), 3)"
    by (simp add: throttled_env_def service_env_def rate_limited_def)
  have m: "model_call_failure (Inl (OtherError ''rate limit exceeded''))
             = Some (OtherError ''rate limit exceeded'')"
    by (simp add: model_call_failure_def)
  show ?thesis
    using model_failure_gives_empty [OF h1 h2 t f c m]
    by (simp add: acme_chat_request_def)
qed

text \<open>
  C8. For every entity, accepted prompt and search text, \<open>extract_information\<close> makes
  exactly one call of the completion service, with exactly two messages: the fixed system
  message and the user message that embeds the prompt with the entity substituted and the
  whole search text; the model is \<open>mixtral-8x7b-32768\<close>, \<open>max_tokens\<close> is 150 and
  the temperature 0.5.
\<close>

theorem extraction_request_built:
  assumes "py_format (format_ext env) prompt entity = Inr query"
  shows "let req = \<lparr>model = ''mixtral-8x7b-32768'',
                    messages =
                      [\<lparr>role = ''system'',
                        content = ''You are a helpful assistant that extracts specific information from web search results.''\<rparr>,
                       \<lparr>role = ''user'',
                        content = ''Extract information from the following search results based on the prompt: ''
                          @ [CHR 0x27] @ query @ [CHR 0x27]
                          @ ''\<newline>\<newline>Search Results:\<newline>'' @ search_results
                          @ ''\<newline>\<newline>Extracted Information:''\<rparr>],
                    max_tokens = 150,
                    temperature = 0.5\<rparr>
         in filter is_chat_event (events (snd (extract_information env entity prompt search_results st)))
              = filter is_chat_event (events st) @ [ChatCompletion req]
          \<and> world (snd (extract_information env entity prompt search_results st))
              = snd (chat_completions_create env (world st) req)
          \<and> length (messages req) = 2"
  using extract_chat_events [OF assms, of search_results st]
  by (simp add: extraction_request_def system_message_def user_message_def Let_def)

theorem extraction_request_built_witness:
  "filter is_chat_event (events (snd
     (extract_information acme_env ''Acme Corp'' demo_prompt ''Jane Doe is the CEO of Acme Corp.''
        init_state)))
   = [ChatCompletion
        \<lparr>model = ''mixtral-8x7b-32768'',
         messages =
           [\<lparr>role = ''system'',
             content = ''You are a helpful assistant that extracts specific information from web search results.''\<rparr>,
            \<lparr>role = ''user'',
             content = ''Extract information from the following search results based on the prompt: 'Who is the ceo of Acme Corp?'\<newline>\<newline>Search Results:\<newline>Jane Doe is the CEO of Acme Corp.\<newline>\<newline>Extracted Information:''\<rparr>],
         max_tokens = 150,
         temperature = 0.5\<rparr>]"
proof -
  have f: "py_format (format_ext acme_env) demo_prompt ''Acme Corp'' = Inr ''Who is the ceo of Acme Corp?''"
    by (simp add: acme_env_def service_env_def demo_prompt_acme)
  show ?thesis
    using extraction_request_built [OF f, of "''Jane Doe is the CEO of Acme Corp.''" init_state]
    by (simp add: Let_def init_state_def)
qed

text \<open>
  C9. End to end, for the entities \<open>Acme Corp\<close> and \<open>Globex\<close> and the prompt
  \<open>Who is the ceo of {entity}?\<close>: if the search for the query of Acme Corp succeeds with
  results whose snippets give a text that is not empty, the model, called with that text,
  answers \<open>Jane Doe\<close>, and the search for the query of Globex then succeeds with no
  organic results (the key \<open>organic_results\<close> is absent or its array is empty), then
  \<open>process_entities\<close> returns exactly the two records \<open>{Acme Corp, Jane Doe}\<close> and
  \<open>{Globex, No data found}\<close>, in that order.
\<close>

theorem end_to_end_acme_globex:
  assumes "requests_get env (world st) (search_request env ''Who is the ceo of Acme Corp?'')
             = (Inr r1, w1)"
    and "\<not> (400 \<le> status_code r1 \<and> status_code r1 < 600)"
    and "json_body r1 = Inr (JObj items1)"
    and "map_of items1 ''organic_results'' = Some (JArr rs)"
    and "list_all result_ok rs"
    and "join_strs ''\<newline>'' (map snippet_of rs) \<noteq> []"
    and "chat_completions_create env w1
           (extraction_request ''Who is the ceo of Acme Corp?''
              (join_strs ''\<newline>'' (map snippet_of rs)))
             = (Inr answer, w2)"
    and "choices answer = Some ''Jane Doe'' # others"
    and "requests_get env w2 (search_request env ''Who is the ceo of Globex?'') = (Inr r2, w3)"
    and "\<not> (400 \<le> status_code r2 \<and> status_code r2 < 600)"
    and "json_body r2 = Inr (JObj items2)"
    and "map_of items2 ''organic_results'' = None
         \<or> map_of items2 ''organic_results'' = Some (JArr [])"
  shows "fst (process_entities env [''Acme Corp'', ''Globex''] ''Who is the ceo of {entity}?'' st)
           = Inr [\<lparr>Entity = ''Acme Corp'', Extracted_Information = ''Jane Doe''\<rparr>,
                  \<lparr>Entity = ''Globex'', Extracted_Information = ''No data found''\<rparr>]"
proof -
  let ?p = "''Who is the ceo of {entity}?''"
  let ?t = "join_strs ''\<newline>'' (map snippet_of rs)"
  let ?q1 = "''Who is the ceo of Acme Corp?''"
  let ?q2 = "''Who is the ceo of Globex?''"
  have f1: "py_format (format_ext env) ?p ''Acme Corp'' = Inr ?q1"
    using ceo_prompt_format [of "format_ext env" "''Acme Corp''"] by simp
  have f2: "py_format (format_ext env) ?p ''Globex'' = Inr ?q2"
    using ceo_prompt_format [of "format_ext env" "''Globex''"] by simp
  define s0 where "s0 = emit (Progress 1 2) st"
  define s1 where "s1 = emit (HttpGet (search_request env ?q1)) (s0\<lparr>world := w1\<rparr>)"
  have g1: "requests_get env (world s0) (search_request env ?q1) = (Inr r1, w1)"
    using assms(1) by (simp add: s0_def emit_def)
  have srch1: "search env ''Acme Corp'' ?p s0 = (Inr ?t, s1)"
    using search_body [OF f1 g1 raise_for_status_pass [OF assms(2)] assms(3)]
      snippets_text_results [OF assms(4) assms(5)]
    by (simp add: s1_def)
  have w_s1: "world s1 = w1" by (simp add: s1_def emit_def)
  have c: "chat_completions_create env (world s1) (extraction_request ?q1 ?t) = (Inr answer, w2)"
    using assms(7) w_s1 by simp
  have strip: "py_strip ''Jane Doe'' = ''Jane Doe''"
    by (simp add: py_strip_def is_space_def)
  define s2 where "s2 = \<lparr>world = w2, events = events s1 @ [ChatCompletion (extraction_request ?q1 ?t)]\<rparr>"
  have ext: "extract_information env ''Acme Corp'' ?p ?t s1 = (Inr ''Jane Doe'', s2)"
    using extract_call_returns [OF f1 c assms(8)] strip by (simp add: s2_def)
  define s3 where "s3 = emit (Progress 2 2) (emit Sleep s2)"
  define s4 where "s4 = emit (HttpGet (search_request env ?q2)) (s3\<lparr>world := w3\<rparr>)"
  have g2: "requests_get env (world s3) (search_request env ?q2) = (Inr r2, w3)"
    using assms(9) by (simp add: s3_def s2_def emit_def)
  have no_results: "snippets_text (JObj items2) = Inr []"
    using assms(12)
  proof
    assume "map_of items2 ''organic_results'' = None"
    then show ?thesis by (rule snippets_text_absent)
  next
    assume "map_of items2 ''organic_results'' = Some (JArr [])"
    from snippets_text_results [OF this] show ?thesis by simp
  qed
  have srch2: "search env ''Globex'' ?p s3 = (Inr [], s4)"
    using search_body [OF f2 g2 raise_for_status_pass [OF assms(10)] assms(11)] no_results
    by (simp add: s4_def)
  have two: "(2::nat) \<noteq> 0" by simp
  have srch1': "search env ''Acme Corp'' ?p (emit (Progress (0 + 1) 2) st) = (Inr ?t, s1)"
    using srch1 by (simp only: s0_def add_0)
  have step1: "process_loop env ?p 2 0 [''Acme Corp'', ''Globex''] [] st =
                 process_loop env ?p 2 1 [''Globex'']
                   [\<lparr>Entity = ''Acme Corp'', Extracted_Information = ''Jane Doe''\<rparr>]
                   (emit Sleep s2)"
    using process_loop_extract_step [OF two srch1' assms(6) ext, of "[''Globex'']" "[]"]
    by (simp only: add_0 append_Nil)
  have srch2': "search env ''Globex'' ?p (emit (Progress (1 + 1) 2) (emit Sleep s2)) = (Inr [], s4)"
    using srch2 by (simp only: s3_def one_add_one)
  have step2: "process_loop env ?p 2 1 [''Globex'']
                 [\<lparr>Entity = ''Acme Corp'', Extracted_Information = ''Jane Doe''\<rparr>] (emit Sleep s2) =
               process_loop env ?p 2 (1 + 1) []
                 ([\<lparr>Entity = ''Acme Corp'', Extracted_Information = ''Jane Doe''\<rparr>]
                   @ [\<lparr>Entity = ''Globex'', Extracted_Information = ''No data found''\<rparr>])
                 (emit Sleep s4)"
    by (rule process_loop_sentinel_step [OF two srch2'])
  have len: "length [''Acme Corp'', ''Globex''] = 2" by simp
  have "process_entities env [''Acme Corp'', ''Globex''] ?p st =
          process_loop env ?p 2 0 [''Acme Corp'', ''Globex''] [] st"
    by (simp only: process_entities_def len)
  also note step1
  also note step2
  also have "process_loop env ?p 2 (1 + 1) []
                 ([\<lparr>Entity = ''Acme Corp'', Extracted_Information = ''Jane Doe''\<rparr>]
                   @ [\<lparr>Entity = ''Globex'', Extracted_Information = ''No data found''\<rparr>])
                 (emit Sleep s4)
             = (Inr [\<lparr>Entity = ''Acme Corp'', Extracted_Information = ''Jane Doe''\<rparr>,
                     \<lparr>Entity = ''Globex'', Extracted_Information = ''No data found''\<rparr>],
                emit Sleep s4)"
    by (simp only: process_loop.simps(1) append_Cons append_Nil)
  finally show ?thesis by (simp only: fst_conv)
qed

theorem end_to_end_acme_globex_witness:
  "fst (process_entities acme_env [''Acme Corp'', ''Globex''] ''Who is the ceo of {entity}?'' init_state)
     = Inr [\<lparr>Entity = ''Acme Corp'', Extracted_Information = ''Jane Doe''\<rparr>,
            \<lparr>Entity = ''Globex'', Extracted_Information = ''No data found''\<rparr>]
   \<and> fst (process_entities empty_results_env [''Acme Corp'', ''Globex'']
             ''Who is the ceo of {entity}?'' init_state)
     = Inr [\<lparr>Entity = ''Acme Corp'', Extracted_Information = ''Jane Doe''\<rparr>,
            \<lparr>Entity = ''Globex'', Extracted_Information = ''No data found''\<rparr>]"
proof -
  let ?r = "\<lparr>status_code = 200, json_body = Inr acme_body\<rparr>"
  let ?r2 = "\<lparr>status_code = 200, json_body = Inr (JObj [])\<rparr>"
  let ?rs = "[JObj [(''snippet'', JStr ''Jane Doe is the CEO of Acme Corp.'')]]"
  have a1: "requests_get acme_env (world init_state) (search_request acme_env ''Who is the ceo of Acme Corp?'')
              = (Inr ?r, 1)"
    by (simp add: acme_env_def service_env_def init_state_def ok_response_def search_request_def)
  have a2: "\<not> (400 \<le> status_code ?r \<and> status_code ?r < 600)" by simp
  have a3: "json_body ?r = Inr (JObj [(''organic_results'', JArr ?rs)])"
    by (simp add: acme_body_def)
  have a4: "map_of [(''organic_results'', JArr ?rs)] ''organic_results'' = Some (JArr ?rs)" by simp
  have a5: "list_all result_ok ?rs" by simp
  have a6: "join_strs ''\<newline>'' (map snippet_of ?rs) \<noteq> []" by simp
  have a7: "chat_completions_create acme_env 1
              (extraction_request ''Who is the ceo of Acme Corp?'' (join_strs ''\<newline>'' (map snippet_of ?rs)))
            = (Inr \<lparr>choices = [Some ''Jane Doe'']\<rparr>, 2)"
    by (simp add: acme_env_def service_env_def jane_doe_def)
  have a8: "choices \<lparr>choices = [Some ''Jane Doe'']\<rparr> = Some ''Jane Doe'' # []" by simp
  have a9: "requests_get acme_env 2 (search_request acme_env ''Who is the ceo of Globex?'') = (Inr ?r2, 3)"
    by (simp add: acme_env_def service_env_def ok_response_def search_request_def)
  have a10: "\<not> (400 \<le> status_code ?r2 \<and> status_code ?r2 < 600)" by simp
  have a11: "json_body ?r2 = Inr (JObj [])" by simp
  have a12: "map_of ([] :: (string \<times> json) list) ''organic_results'' = None
             \<or> map_of ([] :: (string \<times> json) list) ''organic_results'' = Some (JArr [])"
    by simp
  let ?r3 = "\<lparr>status_code = 200, json_body = Inr (JObj [(''organic_results'', JArr [])])\<rparr>"
  have b1: "requests_get empty_results_env (world init_state)
              (search_request empty_results_env ''Who is the ceo of Acme Corp?'') = (Inr ?r, 1)"
    by (simp add: empty_results_env_def service_env_def init_state_def ok_response_def
        search_request_def)
  have b7: "chat_completions_create empty_results_env 1
              (extraction_request ''Who is the ceo of Acme Corp?'' (join_strs ''\<newline>'' (map snippet_of ?rs)))
            = (Inr \<lparr>choices = [Some ''Jane Doe'']\<rparr>, 2)"
    by (simp add: empty_results_env_def service_env_def jane_doe_def)
  have b9: "requests_get empty_results_env 2
              (search_request empty_results_env ''Who is the ceo of Globex?'') = (Inr ?r3, 3)"
    by (simp add: empty_results_env_def service_env_def ok_response_def search_request_def)
  have b10: "\<not> (400 \<le> status_code ?r3 \<and> status_code ?r3 < 600)" by simp
  have b11: "json_body ?r3 = Inr (JObj [(''organic_results'', JArr [])])" by simp
  have b12: "map_of [(''organic_results'', JArr [])] ''organic_results'' = None
             \<or> map_of [(''organic_results'', JArr [])] ''organic_results'' = Some (JArr [])"
    by simp
  from end_to_end_acme_globex [OF a1 a2 a3 a4 a5 a6 a7 a8 a9 a10 a11 a12]
    end_to_end_acme_globex [OF b1 a2 a3 a4 a5 a6 b7 a8 b9 b10 b11 b12]
  show ?thesis by (rule conjI)
qed

text \<open>
  C10. For the empty sequence of entities \<open>process_entities\<close> returns the empty list
  of records without an exception and leaves the state as it was: no search call, no model
  call, no progress signal. The division by the number of entities is in the loop body,
  which does not run, so there is no division by zero.
\<close>

theorem process_entities_empty: "process_entities env [] prompt st = (Inr [], st)"
  by (simp add: process_entities_def)

end
